theory Spec2Isabelle
  imports Complex_Main
begin

section \<open>Host-language values\<close>

text \<open>
  The calculator is the class \<open>Calculator\<close> of the page script. Its state holds strings,
  and every number it computes is parsed from a string and printed back into one.

  A string is modelled as the list of its UTF-16 code units, because the engine looks at
  \<open>length\<close>, \<open>slice\<close> and \<open>includes\<close>, and some of its literals are outside ASCII.
  \<open>js\<close> embeds an ASCII literal.
\<close>

type_synonym jstring = "nat list"

definition js :: "string \<Rightarrow> jstring" where
  "js s = map of_char s"

text \<open>
  A number is a double: not-a-number, an infinity, or a finite value, given by the real
  number it denotes. The two zeros are not distinguished. Comparison is as IEEE 754 has
  it: every comparison with NaN is false.
\<close>

datatype jsnum = NaN | PosInf | NegInf | Fin real

fun num_lt :: "jsnum \<Rightarrow> jsnum \<Rightarrow> bool" where
  "num_lt (Fin x) (Fin y) = (x < y)"
| "num_lt (Fin x) PosInf = True"
| "num_lt NegInf (Fin y) = True"
| "num_lt NegInf PosInf = True"
| "num_lt _ _ = False"

fun num_eq :: "jsnum \<Rightarrow> jsnum \<Rightarrow> bool" where
  "num_eq (Fin x) (Fin y) = (x = y)"
| "num_eq PosInf PosInf = True"
| "num_eq NegInf NegInf = True"
| "num_eq _ _ = False"

definition num_le :: "jsnum \<Rightarrow> jsnum \<Rightarrow> bool" where
  "num_le a b = (num_lt a b \<or> num_eq a b)"

definition num_gt :: "jsnum \<Rightarrow> jsnum \<Rightarrow> bool" where
  "num_gt a b = num_lt b a"

definition num_ge :: "jsnum \<Rightarrow> jsnum \<Rightarrow> bool" where
  "num_ge a b = num_le b a"

definition isNaN :: "jsnum \<Rightarrow> bool" where
  "isNaN n = (n = NaN)"

fun isInteger :: "jsnum \<Rightarrow> bool" where
  "isInteger (Fin x) = (x = of_int \<lfloor>x\<rfloor>)"
| "isInteger _ = False"

text \<open>
  The built-in functions the engine calls are not code of the repository. They are the
  fields of a \<open>runtime\<close>, which every engine operation takes as its first argument, so that
  what is proved of the engine for every runtime holds for the real one, rounding
  included.
\<close>

record runtime =
  parseFloat :: "jstring \<Rightarrow> jsnum"
  parseInt :: "jstring \<Rightarrow> nat \<Rightarrow> jsnum"
  num_to_string :: "jsnum \<Rightarrow> jstring"
  to_string_radix :: "jsnum \<Rightarrow> nat \<Rightarrow> jstring"
  to_precision :: "jsnum \<Rightarrow> nat \<Rightarrow> jstring"
  to_upper_case :: "jstring \<Rightarrow> jstring"
  num_add :: "jsnum \<Rightarrow> jsnum \<Rightarrow> jsnum"
  num_sub :: "jsnum \<Rightarrow> jsnum \<Rightarrow> jsnum"
  num_mul :: "jsnum \<Rightarrow> jsnum \<Rightarrow> jsnum"
  num_div :: "jsnum \<Rightarrow> jsnum \<Rightarrow> jsnum"
  math_pow :: "jsnum \<Rightarrow> jsnum \<Rightarrow> jsnum"
  math_sin :: "jsnum \<Rightarrow> jsnum"
  math_cos :: "jsnum \<Rightarrow> jsnum"
  math_tan :: "jsnum \<Rightarrow> jsnum"
  math_log10 :: "jsnum \<Rightarrow> jsnum"
  math_log :: "jsnum \<Rightarrow> jsnum"
  math_sqrt :: "jsnum \<Rightarrow> jsnum"
  math_pi :: jsnum

section \<open>The calculator state\<close>

text \<open>
  The fields the constructor of \<open>Calculator\<close> sets up for the engine. \<open>operation\<close> is
  \<open>null\<close> or the text of an operator button; \<open>currentBase\<close> is one of the names
  \<open>dec\<close>, \<open>bin\<close>, \<open>oct\<close>, \<open>hex\<close>; \<open>history\<close> has its newest entry first.
\<close>

record calc =
  currentInput :: jstring
  previousInput :: jstring
  operation :: "jstring option"
  resetScreen :: bool
  currentBase :: jstring
  history :: "jstring list"

definition initial :: calc where
  "initial = \<lparr> currentInput = js ''0'', previousInput = [], operation = None,
     resetScreen = False, currentBase = js ''dec'', history = [] \<rparr>"

definition MAX_HISTORY :: nat where
  "MAX_HISTORY = 50"

text \<open>
  The handlers also write to the page: \<open>updateDisplay\<close> copies \<open>currentInput\<close> to the
  screen and \<open>showNotification\<close> shows a message. The screen is not modelled, since it is
  a copy of the state. A message is returned, as a value of \<open>notice\<close>, next to the new
  state; \<open>None\<close> is no message.
\<close>

datatype notice = BinaryDigitsOnly | OctalDigitsOnly | DivisionByZero | Cleared

text \<open>The sentinel strings, by their code units.\<close>

definition error_text :: jstring where
  "error_text = [0x9519, 0x8BEF]"

definition too_large_text :: jstring where
  "too_large_text = [0x592A, 0x5927]"

definition invalid_input_text :: jstring where
  "invalid_input_text = [0x65E0, 0x6548, 0x8F93, 0x5165]"

definition enter_number_text :: jstring where
  "enter_number_text = [0x8BF7, 0x8F93, 0x5165, 0x6570, 0x5B57]"

definition times_sign :: jstring where
  "times_sign = [0xD7]"

definition division_sign :: jstring where
  "division_sign = [0xF7]"

section \<open>Editing the display\<close>

text \<open>\<open>/^[01]+$/.test(value)\<close> and \<open>/^[0-7]+$/.test(value)\<close>.\<close>

definition all_binary :: "jstring \<Rightarrow> bool" where
  "all_binary v = (v \<noteq> [] \<and> list_all (\<lambda>c. 48 \<le> c \<and> c \<le> 49) v)"

definition all_octal :: "jstring \<Rightarrow> bool" where
  "all_octal v = (v \<noteq> [] \<and> list_all (\<lambda>c. 48 \<le> c \<and> c \<le> 55) v)"

definition enter_digits :: "jstring \<Rightarrow> calc \<Rightarrow> calc" where
  "enter_digits v s =
     (if currentInput s = js ''0'' \<or> resetScreen s
      then s\<lparr>currentInput := v, resetScreen := False\<rparr>
      else s\<lparr>currentInput := currentInput s @ v\<rparr>)"

definition handleNumberButton :: "jstring \<Rightarrow> calc \<Rightarrow> notice option \<times> calc" where
  "handleNumberButton v s =
     (if currentBase s \<noteq> js ''dec'' then
        (if currentBase s = js ''bin'' \<and> \<not> all_binary v then (Some BinaryDigitsOnly, s)
         else if currentBase s = js ''oct'' \<and> \<not> all_octal v then (Some OctalDigitsOnly, s)
         else (None, enter_digits v s))
      else (None, enter_digits v s))"

definition clear :: "calc \<Rightarrow> notice option \<times> calc" where
  "clear s = (Some Cleared, s\<lparr>currentInput := js ''0'', previousInput := [], operation := None\<rparr>)"

definition deleteLastCharacter :: "calc \<Rightarrow> calc" where
  "deleteLastCharacter s =
     (if length (currentInput s) > 1 then s\<lparr>currentInput := butlast (currentInput s)\<rparr>
      else s\<lparr>currentInput := js ''0''\<rparr>)"

definition addDecimal :: "calc \<Rightarrow> calc" where
  "addDecimal s =
     (if 46 \<notin> set (currentInput s) then s\<lparr>currentInput := currentInput s @ js ''.''\<rparr> else s)"

section \<open>Evaluation\<close>

text \<open>
  \<open>addToHistory\<close>: \<open>unshift\<close> the entry, then \<open>pop\<close> one entry when the list is longer than
  the cap.
\<close>

definition addToHistory :: "jstring \<Rightarrow> calc \<Rightarrow> calc" where
  "addToHistory entry s =
     (let h = entry # history s
      in s\<lparr>history := (if length h > MAX_HISTORY then butlast h else h)\<rparr>)"

text \<open>A value in a condition: \<open>null\<close> and the empty string count as false.\<close>

definition truthy :: "jstring option \<Rightarrow> bool" where
  "truthy v = (case v of None \<Rightarrow> False | Some t \<Rightarrow> t \<noteq> [])"

text \<open>A value inside a template literal: \<open>null\<close> prints as the word null.\<close>

definition template_text :: "jstring option \<Rightarrow> jstring" where
  "template_text v = (case v of None \<Rightarrow> js ''null'' | Some t \<Rightarrow> t)"

text \<open>
  The \<open>switch\<close> of \<open>calculate\<close>: a result, the early return of a division by zero, or the
  early return of the \<open>default\<close> branch.
\<close>

datatype switch_result = Result jsnum | ZeroDivisor | NoCase

definition apply_operation :: "runtime \<Rightarrow> jstring option \<Rightarrow> jsnum \<Rightarrow> jsnum \<Rightarrow> switch_result" where
  "apply_operation rt op prev current =
     (if op = Some (js ''+'') then Result (num_add rt prev current)
      else if op = Some (js ''-'') then Result (num_sub rt prev current)
      else if op = Some times_sign then Result (num_mul rt prev current)
      else if op = Some division_sign then
        (if num_eq current (Fin 0) then ZeroDivisor else Result (num_div rt prev current))
      else if op = Some (js ''^'') then Result (math_pow rt prev current)
      else NoCase)"

definition calculate :: "runtime \<Rightarrow> calc \<Rightarrow> notice option \<times> calc" where
  "calculate rt s =
     (if \<not> truthy (operation s) \<or> previousInput s = [] then (None, s)
      else
        let prev = parseFloat rt (previousInput s);
            current = parseFloat rt (currentInput s)
        in case apply_operation rt (operation s) prev current of
             ZeroDivisor \<Rightarrow> (Some DivisionByZero, s)
           | NoCase \<Rightarrow> (None, s)
           | Result r \<Rightarrow>
               let result = parseFloat rt (to_precision rt r 12);
                   s1 = s\<lparr>currentInput := num_to_string rt result\<rparr>;
                   s2 = s1\<lparr>operation := None\<rparr>;
                   s3 = s2\<lparr>previousInput := []\<rparr>;
                   entry = num_to_string rt prev @ js '' '' @ template_text (operation s3)
                     @ js '' '' @ num_to_string rt current @ js '' = '' @ num_to_string rt result
               in (None, addToHistory entry s3))"

definition handleOperatorButton :: "runtime \<Rightarrow> jstring \<Rightarrow> calc \<Rightarrow> notice option \<times> calc" where
  "handleOperatorButton rt v s =
     (if v = js ''%'' then
        (None, s\<lparr>currentInput :=
           num_to_string rt (num_div rt (parseFloat rt (currentInput s)) (Fin 100))\<rparr>)
      else
        let (n, s1) = (if truthy (operation s) \<and> previousInput s \<noteq> [] \<and> \<not> resetScreen s
                       then calculate rt s else (None, s))
        in (n, s1\<lparr>previousInput := currentInput s1, operation := Some v, resetScreen := True\<rparr>))"

section \<open>Scientific functions\<close>

text \<open>
  The loop \<open>for (let i = 2; i <= num; i++) result *= i\<close>. It is entered only when \<open>num\<close> is an
  integer between 0 and 100, where the counter is exact; the product is the runtime's.
  In \<open>scientificCalculation\<close> the case distinction on \<open>num\<close> in front of the loop only
  takes the finite value out of it: an integer is finite, so its other branch is never
  taken.
\<close>

function factorial_loop :: "runtime \<Rightarrow> real \<Rightarrow> real \<Rightarrow> jsnum \<Rightarrow> jsnum" where
  "factorial_loop rt i num result =
     (if i \<le> num then factorial_loop rt (i + 1) num (num_mul rt result (Fin i)) else result)"
  by pat_completeness auto
termination
  by (relation "measure (\<lambda>(rt, i, num, result). nat \<lceil>num - i + 1\<rceil>)") (auto, linarith)

declare factorial_loop.simps [simp del]

definition degrees :: "runtime \<Rightarrow> jsnum \<Rightarrow> jsnum" where
  "degrees rt num = num_div rt (num_mul rt num (math_pi rt)) (Fin 180)"

definition scientificCalculation :: "runtime \<Rightarrow> jstring \<Rightarrow> jstring \<Rightarrow> jstring" where
  "scientificCalculation rt func v =
     (let num = parseFloat rt v in
      if isNaN num then error_text
      else if func = js ''sin'' then num_to_string rt (math_sin rt (degrees rt num))
      else if func = js ''cos'' then num_to_string rt (math_cos rt (degrees rt num))
      else if func = js ''tan'' then num_to_string rt (math_tan rt (degrees rt num))
      else if func = js ''log'' then
        (if num_gt num (Fin 0) then num_to_string rt (math_log10 rt num) else error_text)
      else if func = js ''ln'' then
        (if num_gt num (Fin 0) then num_to_string rt (math_log rt num) else error_text)
      else if func = js ''sqrt'' then
        (if num_ge num (Fin 0) then num_to_string rt (math_sqrt rt num) else error_text)
      else if func = js ''square'' then num_to_string rt (num_mul rt num num)
      else if func = js ''cube'' then num_to_string rt (num_mul rt (num_mul rt num num) num)
      else if func = js ''factorial'' then
        (if num_lt num (Fin 0) \<or> \<not> isInteger num then error_text
         else if num_gt num (Fin 100) then too_large_text
         else (case num of
                 Fin n \<Rightarrow> num_to_string rt (factorial_loop rt 2 n (Fin 1))
               | _ \<Rightarrow> error_text))
      else v)"

definition handleScientificButton :: "runtime \<Rightarrow> jstring \<Rightarrow> calc \<Rightarrow> calc" where
  "handleScientificButton rt func s =
     s\<lparr>currentInput := scientificCalculation rt func (currentInput s)\<rparr>"

section \<open>Base conversion\<close>

definition convertBase :: "runtime \<Rightarrow> jstring \<Rightarrow> jstring \<Rightarrow> jstring \<Rightarrow> jstring" where
  "convertBase rt v fromBase toBase =
     (case (if fromBase = js ''dec'' then Some (parseInt rt v 10)
            else if fromBase = js ''bin'' then Some (parseInt rt v 2)
            else if fromBase = js ''oct'' then Some (parseInt rt v 8)
            else if fromBase = js ''hex'' then Some (parseInt rt v 16)
            else None) of
        None \<Rightarrow> error_text
      | Some decimalValue \<Rightarrow>
          if isNaN decimalValue then invalid_input_text
          else if toBase = js ''dec'' then to_string_radix rt decimalValue 10
          else if toBase = js ''bin'' then to_string_radix rt decimalValue 2
          else if toBase = js ''oct'' then to_string_radix rt decimalValue 8
          else if toBase = js ''hex'' then to_upper_case rt (to_string_radix rt decimalValue 16)
          else error_text)"

text \<open>White space and line terminators, as \<open>trim\<close> and the number parsers skip them.\<close>

definition is_white :: "nat \<Rightarrow> bool" where
  "is_white c = (c \<in> set [0x9, 0xA, 0xB, 0xC, 0xD, 0x20, 0xA0, 0x1680, 0x2000, 0x2001, 0x2002,
     0x2003, 0x2004, 0x2005, 0x2006, 0x2007, 0x2008, 0x2009, 0x200A, 0x2028, 0x2029, 0x202F,
     0x205F, 0x3000, 0xFEFF])"

definition trim :: "jstring \<Rightarrow> jstring" where
  "trim v = rev (dropWhile is_white (rev (dropWhile is_white v)))"

text \<open>
  The six conversion buttons of the panel and the handler of their click. The handler
  shows a text in the panel, returned here as the first component, and overwrites the
  display when the conversion starts from decimal.
\<close>

datatype conversion = Dec2Bin | Dec2Oct | Dec2Hex | Bin2Dec | Oct2Dec | Hex2Dec

fun from_decimal :: "conversion \<Rightarrow> bool" where
  "from_decimal Dec2Bin = True"
| "from_decimal Dec2Oct = True"
| "from_decimal Dec2Hex = True"
| "from_decimal _ = False"

fun convert :: "runtime \<Rightarrow> conversion \<Rightarrow> jstring \<Rightarrow> jstring" where
  "convert rt Dec2Bin v = convertBase rt v (js ''dec'') (js ''bin'')"
| "convert rt Dec2Oct v = convertBase rt v (js ''dec'') (js ''oct'')"
| "convert rt Dec2Hex v = convertBase rt v (js ''dec'') (js ''hex'')"
| "convert rt Bin2Dec v = convertBase rt v (js ''bin'') (js ''dec'')"
| "convert rt Oct2Dec v = convertBase rt v (js ''oct'') (js ''dec'')"
| "convert rt Hex2Dec v = convertBase rt v (js ''hex'') (js ''dec'')"

definition handleConversion :: "runtime \<Rightarrow> conversion \<Rightarrow> jstring \<Rightarrow> calc \<Rightarrow> jstring \<times> calc" where
  "handleConversion rt c field s =
     (let inputValue = trim field in
      if inputValue = [] then (enter_number_text, s)
      else let result = convert rt c inputValue
           in (result, if from_decimal c then s\<lparr>currentInput := result\<rparr> else s))"

section \<open>The engine as a transition system\<close>

text \<open>
  One user action on the engine. A digit button carries one character; an operator button
  carries its text; a scientific button the name of its function; a conversion button its
  kind and the text of the input field of the panel.
\<close>

datatype action =
    Digit nat
  | Operator jstring
  | Evaluate
  | Clear
  | DeleteLast
  | DecimalPoint
  | Scientific jstring
  | Convert conversion jstring

fun step :: "runtime \<Rightarrow> action \<Rightarrow> calc \<Rightarrow> calc" where
  "step rt (Digit c) s = snd (handleNumberButton [c] s)"
| "step rt (Operator v) s = snd (handleOperatorButton rt v s)"
| "step rt Evaluate s = snd (calculate rt s)"
| "step rt Clear s = snd (clear s)"
| "step rt DeleteLast s = deleteLastCharacter s"
| "step rt DecimalPoint s = addDecimal s"
| "step rt (Scientific f) s = handleScientificButton rt f s"
| "step rt (Convert c field) s = snd (handleConversion rt c field s)"

definition run :: "runtime \<Rightarrow> action list \<Rightarrow> calc \<Rightarrow> calc" where
  "run rt as s = foldl (\<lambda>s a. step rt a s) s as"

section \<open>A reference runtime\<close>

text \<open>
  To run the engine on concrete inputs the built-in functions need values. \<open>exact_rt\<close>
  gives them by exact arithmetic on the reals: strings are parsed by the grammar of the
  language, integers are printed digit by digit, and no result is rounded, except that
  \<open>parseInt\<close> rounds an integer of more than 53 bits to the nearest double. It agrees with
  the language wherever the exact result is a double that prints without an exponent or
  a fraction, which covers every integer of magnitude below \<open>2^53\<close>. A finite number it
  does not print (a fraction, or a magnitude from \<open>10^21\<close> on in base ten) is printed as
  \<open>unrendered\<close>, a string the language never produces; nothing below is evaluated there.
\<close>

definition unrendered :: jstring where
  "unrendered = [0xFFFD]"

definition digit_value :: "nat \<Rightarrow> nat option" where
  "digit_value c =
     (if 48 \<le> c \<and> c \<le> 57 then Some (c - 48)
      else if 97 \<le> c \<and> c \<le> 122 then Some (c - 87)
      else if 65 \<le> c \<and> c \<le> 90 then Some (c - 55)
      else None)"

definition in_radix :: "nat \<Rightarrow> nat \<Rightarrow> bool" where
  "in_radix r c = (case digit_value c of Some d \<Rightarrow> d < r | None \<Rightarrow> False)"

definition digits_value :: "nat \<Rightarrow> jstring \<Rightarrow> nat" where
  "digits_value r ds =
     foldl (\<lambda>a c. a * r + (case digit_value c of Some d \<Rightarrow> d | None \<Rightarrow> 0)) 0 ds"

definition digit_char :: "nat \<Rightarrow> nat" where
  "digit_char d = (if d < 10 then 48 + d else 87 + d)"

function digits_of :: "nat \<Rightarrow> nat \<Rightarrow> jstring" where
  "digits_of r n =
     (if r < 2 \<or> n < r then [digit_char n] else digits_of r (n div r) @ [digit_char (n mod r)])"
  by pat_completeness auto
termination
  by (relation "measure snd") auto

declare digits_of.simps [simp del]

text \<open>The sign in front of a numeral: whether it is a minus, and the rest.\<close>

fun split_sign :: "jstring \<Rightarrow> bool \<times> jstring" where
  "split_sign [] = (False, [])"
| "split_sign (c # cs) =
     (if c = 45 then (True, cs) else if c = 43 then (False, cs) else (False, c # cs))"

fun strip_hex_prefix :: "jstring \<Rightarrow> jstring" where
  "strip_hex_prefix (a # b # cs) = (if a = 48 \<and> (b = 120 \<or> b = 88) then cs else a # b # cs)"
| "strip_hex_prefix cs = cs"

text \<open>The double nearest to a natural number, ties to the even mantissa.\<close>

definition nearest_double :: "nat \<Rightarrow> jsnum" where
  "nearest_double n =
     (if n < 2 ^ 53 then Fin (real n)
      else
        let e = length (digits_of 2 n) - 53;
            q = n div 2 ^ e;
            r = n mod 2 ^ e;
            m = (if 2 * r > 2 ^ e \<or> (2 * r = 2 ^ e \<and> odd q) then q + 1 else q)
        in if m * 2 ^ e \<ge> 2 ^ 1024 then PosInf else Fin (real (m * 2 ^ e)))"

fun negate :: "jsnum \<Rightarrow> jsnum" where
  "negate (Fin x) = Fin (- x)"
| "negate PosInf = NegInf"
| "negate NegInf = PosInf"
| "negate NaN = NaN"

definition exact_parseInt :: "jstring \<Rightarrow> nat \<Rightarrow> jsnum" where
  "exact_parseInt v r =
     (let (neg, s) = split_sign (dropWhile is_white v);
          z = takeWhile (in_radix r) (if r = 16 then strip_hex_prefix s else s)
      in if z = [] then NaN
         else if neg then negate (nearest_double (digits_value r z))
         else nearest_double (digits_value r z))"

definition is_decimal_digit :: "nat \<Rightarrow> bool" where
  "is_decimal_digit c = (48 \<le> c \<and> c \<le> 57)"

text \<open>The exponent part of a decimal literal, 0 when there is none.\<close>

fun exponent_part :: "jstring \<Rightarrow> int" where
  "exponent_part [] = 0"
| "exponent_part (c # cs) =
     (if c = 101 \<or> c = 69 then
        (let (neg, ds) = split_sign cs;
             z = takeWhile is_decimal_digit ds
         in if neg then - int (digits_value 10 z) else int (digits_value 10 z))
      else 0)"

fun fraction_part :: "jstring \<Rightarrow> jstring \<times> jstring" where
  "fraction_part [] = ([], [])"
| "fraction_part (c # cs) =
     (if c = 46 then (takeWhile is_decimal_digit cs, dropWhile is_decimal_digit cs)
      else ([], c # cs))"

definition scale10 :: "real \<Rightarrow> int \<Rightarrow> real" where
  "scale10 x k = (if k \<ge> 0 then x * 10 ^ nat k else x / 10 ^ nat (- k))"

definition exact_parseFloat :: "jstring \<Rightarrow> jsnum" where
  "exact_parseFloat v =
     (let (neg, s) = split_sign (dropWhile is_white v) in
      if take 8 s = js ''Infinity'' then (if neg then NegInf else PosInf)
      else
        let ip = takeWhile is_decimal_digit s;
            (fp, rest) = fraction_part (dropWhile is_decimal_digit s)
        in if ip = [] \<and> fp = [] then NaN
           else
             let m = scale10 (real (digits_value 10 (ip @ fp)))
                       (exponent_part rest - int (length fp))
             in Fin (if neg then - m else m))"

definition signed_digits :: "nat \<Rightarrow> real \<Rightarrow> jstring" where
  "signed_digits r x =
     (if x < 0 then 45 # digits_of r (nat \<lfloor>- x\<rfloor>) else digits_of r (nat \<lfloor>x\<rfloor>))"

fun exact_to_string :: "jsnum \<Rightarrow> jstring" where
  "exact_to_string NaN = js ''NaN''"
| "exact_to_string PosInf = js ''Infinity''"
| "exact_to_string NegInf = js ''-Infinity''"
| "exact_to_string (Fin x) =
     (if isInteger (Fin x) \<and> \<bar>x\<bar> < 10 ^ 21 then signed_digits 10 x else unrendered)"

fun exact_to_string_radix :: "jsnum \<Rightarrow> nat \<Rightarrow> jstring" where
  "exact_to_string_radix (Fin x) r =
     (if r = 10 then exact_to_string (Fin x)
      else if isInteger (Fin x) then signed_digits r x else unrendered)"
| "exact_to_string_radix n r = exact_to_string n"

fun exact_to_precision :: "jsnum \<Rightarrow> nat \<Rightarrow> jstring" where
  "exact_to_precision (Fin x) p =
     (if isInteger (Fin x) \<and> \<bar>x\<bar> < 10 ^ p then
        (let ds = signed_digits 10 x;
             k = length (digits_of 10 (nat \<lfloor>\<bar>x\<bar>\<rfloor>))
         in if k < p then ds @ 46 # replicate (p - k) 48 else ds)
      else unrendered)"
| "exact_to_precision n p = exact_to_string n"

text \<open>Upper case, on the ASCII letters that a printed number consists of.\<close>

definition upper_char :: "nat \<Rightarrow> nat" where
  "upper_char c = (if 97 \<le> c \<and> c \<le> 122 then c - 32 else c)"

definition ascii_upper :: "jstring \<Rightarrow> jstring" where
  "ascii_upper v = map upper_char v"

fun exact_add :: "jsnum \<Rightarrow> jsnum \<Rightarrow> jsnum" where
  "exact_add (Fin x) (Fin y) = Fin (x + y)"
| "exact_add NaN _ = NaN"
| "exact_add _ NaN = NaN"
| "exact_add PosInf NegInf = NaN"
| "exact_add NegInf PosInf = NaN"
| "exact_add PosInf _ = PosInf"
| "exact_add NegInf _ = NegInf"
| "exact_add _ b = b"

definition exact_sub :: "jsnum \<Rightarrow> jsnum \<Rightarrow> jsnum" where
  "exact_sub a b = exact_add a (negate b)"

fun negative :: "jsnum \<Rightarrow> bool" where
  "negative (Fin x) = (x < 0)"
| "negative NegInf = True"
| "negative _ = False"

definition infinity :: "bool \<Rightarrow> jsnum" where
  "infinity neg = (if neg then NegInf else PosInf)"

fun exact_mul :: "jsnum \<Rightarrow> jsnum \<Rightarrow> jsnum" where
  "exact_mul (Fin x) (Fin y) = Fin (x * y)"
| "exact_mul a b =
     (if a = NaN \<or> b = NaN \<or> a = Fin 0 \<or> b = Fin 0 then NaN
      else infinity (negative a \<noteq> negative b))"

fun exact_div :: "jsnum \<Rightarrow> jsnum \<Rightarrow> jsnum" where
  "exact_div (Fin x) (Fin y) =
     (if y = 0 then (if x = 0 then NaN else infinity (x < 0)) else Fin (x / y))"
| "exact_div (Fin x) PosInf = Fin 0"
| "exact_div (Fin x) NegInf = Fin 0"
| "exact_div PosInf (Fin y) = infinity (y < 0)"
| "exact_div NegInf (Fin y) = infinity (\<not> y < 0)"
| "exact_div _ _ = NaN"

fun exact_pow :: "jsnum \<Rightarrow> jsnum \<Rightarrow> jsnum" where
  "exact_pow a (Fin y) =
     (if y = 0 then Fin 1
      else case a of
          NaN \<Rightarrow> NaN
        | PosInf \<Rightarrow> (if y > 0 then PosInf else Fin 0)
        | NegInf \<Rightarrow>
            (if y < 0 then Fin 0
             else infinity (isInteger (Fin y) \<and> odd \<lfloor>y\<rfloor>))
        | Fin x \<Rightarrow>
            (if isInteger (Fin y) then
               (if y > 0 then Fin (x ^ nat \<lfloor>y\<rfloor>)
                else if x = 0 then PosInf
                else Fin (1 / x ^ nat \<lfloor>- y\<rfloor>))
             else if x < 0 then NaN
             else if x = 0 then (if y > 0 then Fin 0 else PosInf)
             else Fin (x powr y)))"
| "exact_pow a NaN = NaN"
| "exact_pow (Fin x) PosInf =
     (if \<bar>x\<bar> > 1 then PosInf else if \<bar>x\<bar> = 1 then NaN else Fin 0)"
| "exact_pow (Fin x) NegInf =
     (if \<bar>x\<bar> > 1 then Fin 0 else if \<bar>x\<bar> = 1 then NaN else PosInf)"
| "exact_pow NaN _ = NaN"
| "exact_pow _ PosInf = PosInf"
| "exact_pow _ NegInf = Fin 0"

fun exact_sin :: "jsnum \<Rightarrow> jsnum" where
  "exact_sin (Fin x) = Fin (sin x)"
| "exact_sin _ = NaN"

fun exact_cos :: "jsnum \<Rightarrow> jsnum" where
  "exact_cos (Fin x) = Fin (cos x)"
| "exact_cos _ = NaN"

fun exact_tan :: "jsnum \<Rightarrow> jsnum" where
  "exact_tan (Fin x) = Fin (tan x)"
| "exact_tan _ = NaN"

fun exact_logarithm :: "real \<Rightarrow> jsnum \<Rightarrow> jsnum" where
  "exact_logarithm b (Fin x) =
     (if x > 0 then Fin (log b x) else if x = 0 then NegInf else NaN)"
| "exact_logarithm b PosInf = PosInf"
| "exact_logarithm b _ = NaN"

fun exact_sqrt :: "jsnum \<Rightarrow> jsnum" where
  "exact_sqrt (Fin x) = (if x \<ge> 0 then Fin (sqrt x) else NaN)"
| "exact_sqrt PosInf = PosInf"
| "exact_sqrt _ = NaN"

definition exact_rt :: runtime where
  "exact_rt = \<lparr>
     parseFloat = exact_parseFloat,
     parseInt = exact_parseInt,
     num_to_string = exact_to_string,
     to_string_radix = exact_to_string_radix,
     to_precision = exact_to_precision,
     to_upper_case = ascii_upper,
     num_add = exact_add,
     num_sub = exact_sub,
     num_mul = exact_mul,
     num_div = exact_div,
     math_pow = exact_pow,
     math_sin = exact_sin,
     math_cos = exact_cos,
     math_tan = exact_tan,
     math_log10 = exact_logarithm 10,
     math_log = exact_logarithm (exp 1),
     math_sqrt = exact_sqrt,
     math_pi = Fin pi \<rparr>"

section \<open>Notions of the specification\<close>

text \<open>
  The specification speaks of the digits that are valid in a base and of a display that is
  a numeral, possibly a partial one. These definitions follow its words, for the four
  bases the engine names. A partial numeral is a non-empty string: an optional minus sign,
  then valid digits with at most one decimal point among them.
\<close>

definition known_base :: "jstring \<Rightarrow> bool" where
  "known_base b = (b = js ''dec'' \<or> b = js ''bin'' \<or> b = js ''oct'' \<or> b = js ''hex'')"

definition valid_digit :: "jstring \<Rightarrow> nat \<Rightarrow> bool" where
  "valid_digit b c =
     (if b = js ''bin'' then 48 \<le> c \<and> c \<le> 49
      else if b = js ''oct'' then 48 \<le> c \<and> c \<le> 55
      else if b = js ''dec'' then 48 \<le> c \<and> c \<le> 57
      else if b = js ''hex'' then
        (48 \<le> c \<and> c \<le> 57) \<or> (65 \<le> c \<and> c \<le> 70) \<or> (97 \<le> c \<and> c \<le> 102)
      else False)"

fun unsigned_part :: "jstring \<Rightarrow> jstring" where
  "unsigned_part [] = []"
| "unsigned_part (c # r) = (if c = 45 then r else c # r)"

definition partial_numeral :: "jstring \<Rightarrow> jstring \<Rightarrow> bool" where
  "partial_numeral b v =
     (v \<noteq> [] \<and> list_all (\<lambda>c. valid_digit b c \<or> c = 46) (unsigned_part v)
      \<and> length (filter (\<lambda>c. c = 46) (unsigned_part v)) \<le> 1)"

text \<open>The digits that were accepted, as the display shows them: without leading zeros.\<close>

definition drop_leading_zeros :: "jstring \<Rightarrow> jstring" where
  "drop_leading_zeros ds = (case dropWhile (\<lambda>c. c = 48) ds of [] \<Rightarrow> js ''0'' | r \<Rightarrow> r)"

text \<open>The actions that edit the display: a digit button, clear, delete, the decimal point.\<close>

fun editing :: "action \<Rightarrow> bool" where
  "editing (Digit c) = is_decimal_digit c"
| "editing Clear = True"
| "editing DeleteLast = True"
| "editing DecimalPoint = True"
| "editing _ = False"

section \<open>The second page script\<close>

text \<open>
  \<open>script.js\<close> holds a second, simpler calculator with the same four state variables and a
  history that grows at its end. Its \<open>calculate\<close> has no test for a zero divisor and builds the
  history entry before it clears the operator; its operator buttons never evaluate a
  pending operation. It is modelled here on the same record, for comparison only.
\<close>

definition script_calculate :: "runtime \<Rightarrow> calc \<Rightarrow> calc" where
  "script_calculate rt s =
     (let prev = parseFloat rt (previousInput s);
          current = parseFloat rt (currentInput s)
      in case (if operation s = Some (js ''+'') then Some (num_add rt prev current)
               else if operation s = Some (js ''-'') then Some (num_sub rt prev current)
               else if operation s = Some times_sign then Some (num_mul rt prev current)
               else if operation s = Some division_sign then Some (num_div rt prev current)
               else None) of
           None \<Rightarrow> s
         | Some result \<Rightarrow>
             s\<lparr>history := history s @ [previousInput s @ js '' '' @ template_text (operation s)
                   @ js '' '' @ currentInput s @ js '' = '' @ num_to_string rt result],
               currentInput := num_to_string rt result,
               operation := None,
               previousInput := []\<rparr>)"

definition script_equals :: "runtime \<Rightarrow> calc \<Rightarrow> calc" where
  "script_equals rt s =
     (if truthy (operation s) \<and> previousInput s \<noteq> [] then script_calculate rt s else s)"

definition script_operator :: "runtime \<Rightarrow> jstring \<Rightarrow> calc \<Rightarrow> calc" where
  "script_operator rt v s =
     (if v = [0x232B] then
        (if length (currentInput s) > 1 then s\<lparr>currentInput := butlast (currentInput s)\<rparr>
         else s\<lparr>currentInput := js ''0''\<rparr>)
      else if v = js ''%'' then
        s\<lparr>currentInput :=
           num_to_string rt (num_div rt (parseFloat rt (currentInput s)) (Fin 100))\<rparr>
      else s\<lparr>previousInput := currentInput s, operation := Some v, resetScreen := True\<rparr>)"

section \<open>Evaluating the reference runtime\<close>

lemma truthy_simps:
  "truthy None = False" "truthy (Some t) = (t \<noteq> [])"
  by (simp_all add: truthy_def)

lemma exact_rt_fields:
  "parseFloat exact_rt = exact_parseFloat"
  "parseInt exact_rt = exact_parseInt"
  "num_to_string exact_rt = exact_to_string"
  "to_string_radix exact_rt = exact_to_string_radix"
  "to_precision exact_rt = exact_to_precision"
  "to_upper_case exact_rt = ascii_upper"
  "num_add exact_rt = exact_add"
  "num_sub exact_rt = exact_sub"
  "num_mul exact_rt = exact_mul"
  "num_div exact_rt = exact_div"
  "math_sqrt exact_rt = exact_sqrt"
  by (simp_all add: exact_rt_def)

lemma digits_of_small: "n < r \<Longrightarrow> digits_of r n = [digit_char n]"
  by (simp add: digits_of.simps)

lemma digits_of_large:
  "2 \<le> r \<Longrightarrow> r \<le> n \<Longrightarrow> digits_of r n = digits_of r (n div r) @ [digit_char (n mod r)]"
  by (subst digits_of.simps) simp

lemma replicate_unfold: "0 < n \<Longrightarrow> replicate n c = c # replicate (n - 1) c"
  by (cases n) simp_all

lemmas exact_eval = exact_rt_fields js_def exact_parseFloat_def exact_parseInt_def
  is_white_def is_decimal_digit_def digits_value_def digit_value_def scale10_def
  digits_of_small digits_of_large digit_char_def signed_digits_def in_radix_def
  nearest_double_def ascii_upper_def upper_char_def replicate_unfold

lemmas engine_eval = run_def initial_def handleNumberButton_def enter_digits_def
  handleOperatorButton_def calculate_def apply_operation_def truthy_simps template_text_def
  addToHistory_def MAX_HISTORY_def Let_def

section \<open>Evaluation and its history entry\<close>

lemma addToHistory_fields:
  "currentInput (addToHistory e s) = currentInput s"
  "previousInput (addToHistory e s) = previousInput s"
  "operation (addToHistory e s) = operation s"
  "resetScreen (addToHistory e s) = resetScreen s"
  "currentBase (addToHistory e s) = currentBase s"
  by (simp_all add: addToHistory_def Let_def)

lemma calculate_cases:
  "calculate rt s = (None, s) \<or> calculate rt s = (Some DivisionByZero, s) \<or>
   (fst (calculate rt s) = None \<and> operation (snd (calculate rt s)) = None
     \<and> previousInput (snd (calculate rt s)) = []
     \<and> resetScreen (snd (calculate rt s)) = resetScreen s
     \<and> currentBase (snd (calculate rt s)) = currentBase s)"
  by (simp add: calculate_def Let_def addToHistory_fields split: switch_result.splits)

text \<open>
  Whenever \<open>calculate\<close> completes an operation, the entry it records is built after
  \<open>operation\<close> has been set to \<open>null\<close>, so the entry has the word null where the operator
  should be, whatever the operator and the runtime.
\<close>

lemma calculate_entry_has_null:
  assumes "truthy (operation s)" and "previousInput s \<noteq> []"
    and "apply_operation rt (operation s) (parseFloat rt (previousInput s))
           (parseFloat rt (currentInput s)) = Result r"
  shows "hd (history (snd (calculate rt s))) =
     num_to_string rt (parseFloat rt (previousInput s)) @ js '' null ''
       @ num_to_string rt (parseFloat rt (currentInput s)) @ js '' = ''
       @ num_to_string rt (parseFloat rt (to_precision rt r 12))"
  using assms
  by (simp add: calculate_def Let_def addToHistory_def template_text_def js_def MAX_HISTORY_def)

text \<open>
  C1. After 7, +, 3 and the equals button the display is 10, as the specification says,
  but the only history entry is \<open>7 null 3 = 10\<close>: the entry \<open>7 + 3 = 10\<close> that the
  specification expects is not in the history.
\<close>

theorem seven_plus_three_history:
  "currentInput (run exact_rt [Digit 55, Operator (js ''+''), Digit 51, Evaluate] initial)
     = js ''10''
   \<and> history (run exact_rt [Digit 55, Operator (js ''+''), Digit 51, Evaluate] initial)
     = [js ''7 null 3 = 10'']
   \<and> js ''7 + 3 = 10''
     \<notin> set (history (run exact_rt [Digit 55, Operator (js ''+''), Digit 51, Evaluate] initial))"
  by (simp add: engine_eval exact_eval)

lemma operator_names:
  "division_sign \<noteq> js ''+''" "division_sign \<noteq> js ''-''" "division_sign \<noteq> times_sign"
  "division_sign \<noteq> js ''^''" "division_sign \<noteq> []"
  by (simp_all add: division_sign_def times_sign_def js_def)





text \<open>
  C9. \<open>calculate\<close> returns the state it was given when \<open>operation\<close> is \<open>null\<close> or
  \<open>previousInput\<close> is empty, and a second call in a row never changes the state the first
  call left.
\<close>

theorem calculate_noop_idempotent:
  "(operation s = None \<or> previousInput s = [] \<longrightarrow> calculate rt s = (None, s))
   \<and> snd (calculate rt (snd (calculate rt s))) = snd (calculate rt s)"
proof
  show "operation s = None \<or> previousInput s = [] \<longrightarrow> calculate rt s = (None, s)"
    by (auto simp: calculate_def truthy_simps)
next
  from calculate_cases [of rt s]
  consider "snd (calculate rt s) = s" | "operation (snd (calculate rt s)) = None"
    by auto
  then show "snd (calculate rt (snd (calculate rt s))) = snd (calculate rt s)"
  proof cases
    case 1
    then show ?thesis by simp
  next
    case 2
    then have "calculate rt (snd (calculate rt s)) = (None, snd (calculate rt s))"
      by (simp add: calculate_def truthy_simps)
    then show ?thesis by simp
  qed
qed

theorem calculate_noop_idempotent_witness:
  "operation initial = None \<and> calculate exact_rt initial = (None, initial)
   \<and> snd (calculate exact_rt (snd (calculate exact_rt
        (run exact_rt [Digit 55, Operator (js ''+''), Digit 51] initial))))
     = initial\<lparr>currentInput := js ''10'', history := [js ''7 null 3 = 10'']\<rparr>"
  using calculate_noop_idempotent [of initial exact_rt]
    calculate_noop_idempotent [of "run exact_rt [Digit 55, Operator (js ''+''), Digit 51] initial"
      exact_rt]
  by (simp add: engine_eval exact_eval)

text \<open>
  C10. \<open>clear\<close> writes the display, the left operand and the operation, and nothing else:
  \<open>resetScreen\<close>, \<open>currentBase\<close> and \<open>history\<close> are as before. So the flag that an operator
  button has set is still set after \<open>clear\<close>, and whatever the flag is after \<open>calculate\<close>, it
  is the same after \<open>clear\<close>.
\<close>

theorem clear_frame:
  "snd (clear s) = s\<lparr>currentInput := js ''0'', previousInput := [], operation := None\<rparr>
   \<and> resetScreen (snd (clear s)) = resetScreen s
   \<and> currentBase (snd (clear s)) = currentBase s
   \<and> history (snd (clear s)) = history s
   \<and> (v \<noteq> js ''%'' \<longrightarrow> resetScreen (snd (clear (snd (handleOperatorButton rt v s)))) = True)
   \<and> resetScreen (snd (clear (snd (calculate rt s)))) = resetScreen (snd (calculate rt s))"
  by (simp add: clear_def handleOperatorButton_def split: prod.splits)

theorem clear_frame_witness:
  "js ''+'' \<noteq> js ''%''
   \<and> snd (clear (snd (handleOperatorButton exact_rt (js ''+'') initial)))
     = initial\<lparr>resetScreen := True\<rparr>"
  using clear_frame [where s = initial and v = "js ''+''" and rt = exact_rt]
    clear_frame [where s = "snd (handleOperatorButton exact_rt (js ''+'') initial)"]
  by (simp add: engine_eval clear_def js_def)

section \<open>Digit entry\<close>

lemma run_Nil: "run rt [] s = s"
  by (simp add: run_def)

lemma run_Cons: "run rt (a # as) s = run rt as (step rt a s)"
  by (simp add: run_def)

lemma base_names:
  "js ''dec'' \<noteq> js ''bin''" "js ''dec'' \<noteq> js ''oct''" "js ''dec'' \<noteq> js ''hex''"
  "js ''bin'' \<noteq> js ''oct''" "js ''bin'' \<noteq> js ''hex''" "js ''oct'' \<noteq> js ''hex''"
  "js ''bin'' \<noteq> js ''dec''" "js ''oct'' \<noteq> js ''dec''" "js ''hex'' \<noteq> js ''dec''"
  "js ''oct'' \<noteq> js ''bin''" "js ''hex'' \<noteq> js ''bin''" "js ''hex'' \<noteq> js ''oct''"
  by (simp_all add: js_def)

lemma digit_step:
  assumes "known_base (currentBase s)" and "is_decimal_digit c"
  shows "handleNumberButton [c] s =
     (if valid_digit (currentBase s) c then (None, enter_digits [c] s)
      else (Some (if currentBase s = js ''bin'' then BinaryDigitsOnly else OctalDigitsOnly), s))"
  using assms
  by (auto simp: handleNumberButton_def known_base_def valid_digit_def is_decimal_digit_def
      all_binary_def all_octal_def base_names)

lemma enter_digits_base: "currentBase (enter_digits v s) = currentBase s"
  by (simp add: enter_digits_def)

lemma drop_leading_zeros_snoc:
  "drop_leading_zeros (acc @ [c]) =
     (if drop_leading_zeros acc = js ''0'' then [c] else drop_leading_zeros acc @ [c])"
proof (cases "dropWhile (\<lambda>c. c = 48) acc")
  case Nil
  then have zero: "drop_leading_zeros acc = js ''0''"
    by (simp only: drop_leading_zeros_def list.case)
  from Nil have "\<forall>x\<in>set acc. x = 48" by (simp add: dropWhile_eq_Nil_conv)
  then have "dropWhile (\<lambda>c. c = 48) (acc @ [c]) = (if c = 48 then [] else [c])"
    by (simp add: dropWhile_append2)
  then have "drop_leading_zeros (acc @ [c]) = [c]"
    by (simp add: drop_leading_zeros_def js_def)
  with zero show ?thesis by simp
next
  case (Cons a r)
  then have "a \<noteq> 48" using hd_dropWhile [of "\<lambda>c. c = 48" acc] by auto
  with Cons have other: "drop_leading_zeros acc = a # r" "drop_leading_zeros acc \<noteq> js ''0''"
    by (simp_all add: drop_leading_zeros_def js_def)
  from Cons have "dropWhile (\<lambda>c. c = 48) (acc @ [c]) = a # r @ [c]"
    by (metis append_Cons dropWhile_append1 dropWhile_eq_Nil_conv list.distinct(1))
  then have "drop_leading_zeros (acc @ [c]) = a # r @ [c]"
    by (simp add: drop_leading_zeros_def)
  with other show ?thesis by simp
qed

lemma digits_run_accumulated:
  assumes "known_base b"
  shows "currentBase s = b \<Longrightarrow> list_all is_decimal_digit ds \<Longrightarrow> \<not> resetScreen s \<Longrightarrow>
     currentInput s = drop_leading_zeros acc \<Longrightarrow>
     currentInput (run rt (map Digit ds) s) = drop_leading_zeros (acc @ filter (valid_digit b) ds)"
proof (induction ds arbitrary: s acc)
  case Nil
  then show ?case by (simp add: run_Nil)
next
  case (Cons c ds)
  show ?case
  proof (cases "valid_digit b c")
    case False
    with Cons.prems assms have "step rt (Digit c) s = s"
      by (simp add: digit_step)
    with Cons False show ?thesis by (simp add: run_Cons)
  next
    case True
    let ?s = "enter_digits [c] s"
    from True Cons.prems assms have st: "step rt (Digit c) s = ?s"
      by (simp add: digit_step)
    have "currentInput ?s = drop_leading_zeros (acc @ [c])"
      using Cons.prems by (simp add: enter_digits_def drop_leading_zeros_snoc)
    moreover have "\<not> resetScreen ?s" "currentBase ?s = b"
      using Cons.prems by (simp_all add: enter_digits_def)
    ultimately have "currentInput (run rt (map Digit ds) ?s)
        = drop_leading_zeros ((acc @ [c]) @ filter (valid_digit b) ds)"
      using Cons.IH [of ?s "acc @ [c]"] Cons.prems by simp
    with st True show ?thesis by (simp add: run_Cons)
  qed
qed

lemma digits_run_fresh:
  assumes "known_base b"
  shows "currentBase s = b \<Longrightarrow> list_all is_decimal_digit ds \<Longrightarrow>
     resetScreen s \<or> currentInput s = js ''0'' \<Longrightarrow>
     currentInput (run rt (map Digit ds) s) =
       (if filter (valid_digit b) ds = [] then currentInput s
        else drop_leading_zeros (filter (valid_digit b) ds))"
proof (induction ds arbitrary: s)
  case Nil
  then show ?case by (simp add: run_Nil)
next
  case (Cons c ds)
  show ?case
  proof (cases "valid_digit b c")
    case False
    with Cons.prems assms have "step rt (Digit c) s = s"
      by (simp add: digit_step)
    with Cons False show ?thesis by (simp add: run_Cons)
  next
    case True
    let ?s = "s\<lparr>currentInput := [c], resetScreen := False\<rparr>"
    from True Cons.prems assms have st: "step rt (Digit c) s = ?s"
      by (auto simp: digit_step enter_digits_def)
    have "currentInput ?s = drop_leading_zeros [c]"
      by (simp add: drop_leading_zeros_def js_def)
    then have "currentInput (run rt (map Digit ds) ?s)
        = drop_leading_zeros ([c] @ filter (valid_digit b) ds)"
      using digits_run_accumulated [OF assms, of ?s ds "[c]" rt] Cons.prems by simp
    with st True show ?thesis by (simp add: run_Cons)
  qed
qed

text \<open>
  C5 (amended). In one of the four bases, a digit button \<open>0\<close> to \<open>9\<close> that is not a digit of
  the base is refused: a message is shown and the state stays as it was. A digit of the
  base replaces the display when \<open>resetScreen\<close> is set or the display is \<open>0\<close>, clearing the
  flag, and is appended otherwise. Hence, from a display that is \<open>0\<close> or is to be reset,
  after any sequence of digit buttons the display is the sequence of the accepted digits
  without its leading zeros (a single \<open>0\<close> when only zeros were accepted; the display as it
  was when no digit was accepted).
\<close>

theorem digit_entry:
  assumes "known_base (currentBase s)"
  shows "(is_decimal_digit c \<and> \<not> valid_digit (currentBase s) c \<longrightarrow>
           snd (handleNumberButton [c] s) = s \<and> fst (handleNumberButton [c] s) \<noteq> None)
     \<and> (is_decimal_digit c \<and> valid_digit (currentBase s) c \<longrightarrow>
           handleNumberButton [c] s =
             (None, if resetScreen s \<or> currentInput s = js ''0''
                    then s\<lparr>currentInput := [c], resetScreen := False\<rparr>
                    else s\<lparr>currentInput := currentInput s @ [c]\<rparr>))
     \<and> (list_all is_decimal_digit ds \<and> (resetScreen s \<or> currentInput s = js ''0'') \<longrightarrow>
           currentInput (run rt (map Digit ds) s) =
             (if filter (valid_digit (currentBase s)) ds = [] then currentInput s
              else drop_leading_zeros (filter (valid_digit (currentBase s)) ds)))"
  using assms digits_run_fresh [OF assms, of s ds rt]
  by (auto simp: digit_step enter_digits_def)

theorem digit_entry_witness:
  "known_base (currentBase (initial\<lparr>currentBase := js ''oct''\<rparr>))
   \<and> is_decimal_digit 57 \<and> \<not> valid_digit (js ''oct'') 57
   \<and> handleNumberButton [57] (initial\<lparr>currentBase := js ''oct''\<rparr>)
       = (Some OctalDigitsOnly, initial\<lparr>currentBase := js ''oct''\<rparr>)
   \<and> is_decimal_digit 55 \<and> valid_digit (js ''oct'') 55
   \<and> handleNumberButton [55] (initial\<lparr>currentBase := js ''oct''\<rparr>)
       = (None, initial\<lparr>currentBase := js ''oct'', currentInput := [55]\<rparr>)
   \<and> list_all is_decimal_digit [48, 57, 55, 48]
   \<and> currentInput (run exact_rt (map Digit [48, 57, 55, 48]) (initial\<lparr>currentBase := js ''oct''\<rparr>))
       = js ''70''"
  using digit_entry [of "initial\<lparr>currentBase := js ''oct''\<rparr>" 57 "[48, 57, 55, 48]" exact_rt]
    digit_entry [of "initial\<lparr>currentBase := js ''oct''\<rparr>" 55 "[]" exact_rt]
  by (simp add: known_base_def valid_digit_def is_decimal_digit_def base_names initial_def
      drop_leading_zeros_def handleNumberButton_def all_octal_def js_def)

text \<open>
  C5 as stated fails for a sequence that starts with a zero: after the digits 0 and 7,
  both valid in base ten, the display is \<open>7\<close> and not their concatenation \<open>07\<close>.
\<close>

theorem digit_concatenation_counterexample:
  "list_all (valid_digit (currentBase initial)) [48, 55]
   \<and> currentInput (run exact_rt (map Digit [48, 55]) initial) \<noteq> [48, 55]"
  by (simp add: engine_eval valid_digit_def js_def)

section \<open>Scientific functions: domains and factorial\<close>



lemma function_names:
  "js ''log'' \<noteq> js ''sin''" "js ''log'' \<noteq> js ''cos''" "js ''log'' \<noteq> js ''tan''"
  "js ''ln'' \<noteq> js ''sin''" "js ''ln'' \<noteq> js ''cos''" "js ''ln'' \<noteq> js ''tan''"
  "js ''ln'' \<noteq> js ''log''"
  "js ''sqrt'' \<noteq> js ''sin''" "js ''sqrt'' \<noteq> js ''cos''" "js ''sqrt'' \<noteq> js ''tan''"
  "js ''sqrt'' \<noteq> js ''log''" "js ''sqrt'' \<noteq> js ''ln''"
  "js ''factorial'' \<noteq> js ''sin''" "js ''factorial'' \<noteq> js ''cos''"
  "js ''factorial'' \<noteq> js ''tan''" "js ''factorial'' \<noteq> js ''log''"
  "js ''factorial'' \<noteq> js ''ln''" "js ''factorial'' \<noteq> js ''sqrt''"
  "js ''factorial'' \<noteq> js ''square''" "js ''factorial'' \<noteq> js ''cube''"
  by (simp_all add: js_def)

lemma sqrt_nine: "sqrt 9 = (3::real)"
  using real_sqrt_abs [of 3] by simp

lemma not_positive: "num_le n (Fin 0) \<Longrightarrow> \<not> num_gt n (Fin 0)"
  by (cases n) (auto simp: num_le_def num_gt_def)

lemma negative_not_ge: "num_lt n (Fin 0) \<Longrightarrow> \<not> num_ge n (Fin 0)"
  by (cases n) (auto simp: num_le_def num_ge_def)

text \<open>
  C7 (amended). \<open>log\<close> and \<open>ln\<close> return the error text for every operand that is zero or
  negative; \<open>sqrt\<close> returns it for every negative operand, and for zero it returns the
  printed square root of zero. With the reference runtime, \<open>sqrt\<close> of \<open>-1\<close> is the error text
  and \<open>sqrt\<close> of \<open>9\<close> is \<open>3\<close>.
\<close>

theorem domain_checks:
  "(num_le (parseFloat rt v) (Fin 0) \<longrightarrow>
      scientificCalculation rt (js ''log'') v = error_text
      \<and> scientificCalculation rt (js ''ln'') v = error_text)
   \<and> (num_lt (parseFloat rt v) (Fin 0) \<longrightarrow>
      scientificCalculation rt (js ''sqrt'') v = error_text)
   \<and> (parseFloat rt v = Fin 0 \<longrightarrow>
      scientificCalculation rt (js ''sqrt'') v = num_to_string rt (math_sqrt rt (Fin 0)))
   \<and> scientificCalculation exact_rt (js ''sqrt'') (js ''-1'') = error_text
   \<and> scientificCalculation exact_rt (js ''sqrt'') (js ''9'') = js ''3''"
proof (intro conjI impI)
  assume "num_le (parseFloat rt v) (Fin 0)"
  then have "\<not> num_gt (parseFloat rt v) (Fin 0)" by (rule not_positive)
  then show "scientificCalculation rt (js ''log'') v = error_text"
    and "scientificCalculation rt (js ''ln'') v = error_text"
    by (simp_all add: scientificCalculation_def Let_def function_names)
next
  assume "num_lt (parseFloat rt v) (Fin 0)"
  then have "\<not> num_ge (parseFloat rt v) (Fin 0)" by (rule negative_not_ge)
  then show "scientificCalculation rt (js ''sqrt'') v = error_text"
    by (simp add: scientificCalculation_def Let_def function_names)
next
  assume "parseFloat rt v = Fin 0"
  then show "scientificCalculation rt (js ''sqrt'') v = num_to_string rt (math_sqrt rt (Fin 0))"
    by (simp add: scientificCalculation_def Let_def function_names isNaN_def num_ge_def num_le_def)
next
  have "exact_parseFloat (js ''-1'') = Fin (- 1)"
    by (simp add: exact_eval)
  then show "scientificCalculation exact_rt (js ''sqrt'') (js ''-1'') = error_text"
    by (simp add: scientificCalculation_def Let_def function_names isNaN_def num_ge_def
        num_le_def exact_rt_fields)
next
  have "exact_parseFloat (js ''9'') = Fin 9"
    by (simp add: exact_eval)
  moreover have "exact_to_string (Fin 3) = js ''3''"
    by (simp add: exact_eval)
  ultimately show "scientificCalculation exact_rt (js ''sqrt'') (js ''9'') = js ''3''"
    by (simp add: scientificCalculation_def Let_def function_names isNaN_def num_ge_def
        num_le_def exact_rt_fields sqrt_nine)
qed

theorem domain_checks_witness:
  "num_le (parseFloat exact_rt (js ''0'')) (Fin 0)
   \<and> scientificCalculation exact_rt (js ''log'') (js ''0'') = error_text
   \<and> num_lt (parseFloat exact_rt (js ''-1'')) (Fin 0)
   \<and> scientificCalculation exact_rt (js ''sqrt'') (js ''-1'') = error_text
   \<and> scientificCalculation exact_rt (js ''sqrt'') (js ''0'') = js ''0''"
proof -
  have a: "parseFloat exact_rt (js ''0'') = Fin 0" "parseFloat exact_rt (js ''-1'') = Fin (- 1)"
    by (simp_all add: exact_eval)
  have b: "num_to_string exact_rt (math_sqrt exact_rt (Fin 0)) = js ''0''"
    by (simp add: exact_eval)
  from a b domain_checks [of exact_rt "js ''0''"] domain_checks [of exact_rt "js ''-1''"]
  show ?thesis by (simp add: num_le_def)
qed

text \<open>
  C7 as stated fails at the operand 0, which is not positive: \<open>sqrt\<close> of \<open>0\<close> is \<open>0\<close>, not the
  error text.
\<close>

theorem sqrt_zero_counterexample:
  "num_le (parseFloat exact_rt (js ''0'')) (Fin 0)
   \<and> scientificCalculation exact_rt (js ''sqrt'') (js ''0'') \<noteq> error_text"
proof -
  have "exact_parseFloat (js ''0'') = Fin 0"
    by (simp add: exact_eval)
  moreover have "exact_to_string (Fin 0) = js ''0''"
    by (simp add: exact_eval)
  ultimately show ?thesis
    by (simp add: scientificCalculation_def Let_def function_names isNaN_def num_ge_def
        num_le_def exact_rt_fields error_text_def js_def)
qed



lemma isInteger_nat: "isInteger (Fin (real k))"
  by simp



section \<open>Base conversion there and back\<close>

lemma digit_value_digit_char: "d < 36 \<Longrightarrow> digit_value (digit_char d) = Some d"
  by (simp add: digit_value_def digit_char_def)

lemma in_radix_digit_char: "d < r \<Longrightarrow> r \<le> 36 \<Longrightarrow> in_radix r (digit_char d)"
  by (simp add: in_radix_def digit_value_digit_char)

lemma digits_of_in_radix:
  "2 \<le> r \<Longrightarrow> r \<le> 36 \<Longrightarrow> list_all (in_radix r) (digits_of r n)"
proof (induction r n rule: digits_of.induct)
  case (1 r n)
  show ?case
  proof (cases "n < r")
    case True
    with 1 show ?thesis by (simp add: digits_of_small in_radix_digit_char)
  next
    case False
    with 1 show ?thesis
      by (simp add: digits_of_large in_radix_digit_char)
  qed
qed

lemma digits_value_snoc:
  "digits_value r (ds @ [c]) =
     digits_value r ds * r + (case digit_value c of Some d \<Rightarrow> d | None \<Rightarrow> 0)"
  by (simp add: digits_value_def)

lemma digits_value_digits_of:
  "2 \<le> r \<Longrightarrow> r \<le> 36 \<Longrightarrow> digits_value r (digits_of r n) = n"
proof (induction r n rule: digits_of.induct)
  case (1 r n)
  show ?case
  proof (cases "n < r")
    case True
    with 1 show ?thesis
      by (simp add: digits_of_small digits_value_def digit_value_digit_char)
  next
    case False
    with 1 have "n mod r < 36" by (meson less_le_trans mod_less_divisor not_less zero_less_numeral le_trans)
    with False 1 show ?thesis
      by (simp add: digits_of_large digits_value_snoc digit_value_digit_char)
  qed
qed

lemma digits_of_not_Nil: "digits_of r n \<noteq> []"
  by (subst digits_of.simps) simp

text \<open>A digit is no white space, no sign, and not the letter of the hexadecimal prefix.\<close>

lemma in_radix_plain:
  assumes "in_radix r c" and "r \<le> 16"
  shows "\<not> is_white c" and "c \<noteq> 45" and "c \<noteq> 43" and "c \<noteq> 120" and "c \<noteq> 88"
  using assms
  by (auto simp: in_radix_def digit_value_def is_white_def split: if_splits option.splits)

lemma parse_digits:
  assumes ds: "list_all (in_radix r) ds" "ds \<noteq> []" and r: "r \<le> 16"
  shows "exact_parseInt ds r = nearest_double (digits_value r ds)"
proof -
  obtain c cs where c: "ds = c # cs" using ds(2) by (cases ds) auto
  with ds have inr: "in_radix r c" "list_all (in_radix r) cs" by simp_all
  have white: "dropWhile is_white ds = ds"
    using c in_radix_plain(1) [OF inr(1) r] by simp
  have sign: "split_sign ds = (False, ds)"
    using c in_radix_plain(2,3) [OF inr(1) r] by simp
  have hex: "strip_hex_prefix ds = ds"
  proof (cases cs)
    case Nil
    with c show ?thesis by simp
  next
    case (Cons b bs)
    with inr have "in_radix r b" by simp
    from in_radix_plain(4,5) [OF this r] c Cons show ?thesis by simp
  qed
  have tw: "takeWhile (in_radix r) ds = ds"
    using ds(1) by (simp add: list_all_iff)
  have sel: "(if r = 16 then strip_hex_prefix ds else ds) = ds"
    by (simp add: hex)
  show ?thesis
    unfolding exact_parseInt_def white sign prod.case sel tw Let_def
    using ds(2) by simp
qed

lemma nearest_double_small: "n < 2 ^ 53 \<Longrightarrow> nearest_double n = Fin (real n)"
  by (simp add: nearest_double_def)

lemma parse_digits_of:
  assumes "2 \<le> r" "r \<le> 16" "n < 2 ^ 53"
  shows "exact_parseInt (digits_of r n) r = Fin (real n)"
  using assms
  by (simp add: parse_digits digits_of_in_radix digits_of_not_Nil digits_value_digits_of
      nearest_double_small)

lemma digit_value_upper: "digit_value c = Some d \<Longrightarrow> digit_value (upper_char c) = Some d"
  by (auto simp: digit_value_def upper_char_def split: if_splits)

lemma in_radix_upper_char: "in_radix r c \<Longrightarrow> in_radix r (upper_char c)"
  by (cases "digit_value c") (simp_all add: in_radix_def digit_value_upper)

lemma in_radix_upper: "list_all (in_radix r) ds \<Longrightarrow> list_all (in_radix r) (ascii_upper ds)"
  by (induction ds) (simp_all add: ascii_upper_def in_radix_upper_char)

lemma digits_value_upper:
  "list_all (in_radix r) ds \<Longrightarrow> digits_value r (ascii_upper ds) = digits_value r ds"
proof (induction ds rule: rev_induct)
  case Nil
  then show ?case by (simp add: ascii_upper_def)
next
  case (snoc c ds)
  then obtain d where d: "digit_value c = Some d"
    by (auto simp: in_radix_def split: option.splits)
  from snoc have "digits_value r (ascii_upper ds) = digits_value r ds" by simp
  moreover have "ascii_upper (ds @ [c]) = ascii_upper ds @ [upper_char c]"
    by (simp add: ascii_upper_def)
  ultimately show ?case
    using digit_value_upper [OF d] d by (simp add: digits_value_snoc)
qed

lemma parse_upper_digits_of:
  assumes "2 \<le> r" "r \<le> 16" "n < 2 ^ 53"
  shows "exact_parseInt (ascii_upper (digits_of r n)) r = Fin (real n)"
proof -
  have v: "list_all (in_radix r) (digits_of r n)"
    using assms by (simp add: digits_of_in_radix)
  then have "list_all (in_radix r) (ascii_upper (digits_of r n))"
    by (rule in_radix_upper)
  moreover have "ascii_upper (digits_of r n) \<noteq> []"
    by (simp add: ascii_upper_def digits_of_not_Nil)
  ultimately have "exact_parseInt (ascii_upper (digits_of r n)) r
      = nearest_double (digits_value r (ascii_upper (digits_of r n)))"
    using assms by (intro parse_digits) simp_all
  with v assms show ?thesis
    by (simp add: digits_value_upper digits_value_digits_of nearest_double_small)
qed

lemma print_nat_radix:
  "r \<noteq> 10 \<Longrightarrow> exact_to_string_radix (Fin (real n)) r = digits_of r n"
  by (simp add: signed_digits_def)

lemma below_ten_to_21: "n < 2 ^ 53 \<Longrightarrow> real n < 10 ^ 21"
proof -
  assume "n < 2 ^ 53"
  then have "n < 10 ^ 21" by simp
  then have "real n < real (10 ^ 21)" by (simp only: of_nat_less_iff)
  then show ?thesis by simp
qed

lemma print_nat_decimal:
  "n < 2 ^ 53 \<Longrightarrow> exact_to_string_radix (Fin (real n)) 10 = digits_of 10 n"
  using below_ten_to_21 [of n] by (simp add: signed_digits_def)

lemmas convert_eval = convertBase_def exact_rt_fields base_names isNaN_def
  parse_digits_of parse_upper_digits_of print_nat_radix print_nat_decimal

text \<open>
  C4 (amended). For every natural number below \<open>2^53\<close>, written in decimal without leading
  zeros, converting it from decimal to binary, octal or hexadecimal and back gives the same
  string.
\<close>

theorem convertBase_round_trip:
  assumes "n < 2 ^ 53" and "b = js ''bin'' \<or> b = js ''oct'' \<or> b = js ''hex''"
  shows "convertBase exact_rt (convertBase exact_rt (digits_of 10 n) (js ''dec'') b) b (js ''dec'')
     = digits_of 10 n"
proof -
  from assms(2) consider "b = js ''bin''" | "b = js ''oct''" | "b = js ''hex''" by blast
  then show ?thesis
  proof cases
    case 1
    have "convertBase exact_rt (digits_of 10 n) (js ''dec'') (js ''bin'') = digits_of 2 n"
      using assms(1)
      by (simp add: convert_eval del: exact_to_string_radix.simps)
    moreover have "convertBase exact_rt (digits_of 2 n) (js ''bin'') (js ''dec'') = digits_of 10 n"
      using assms(1)
      by (simp add: convert_eval del: exact_to_string_radix.simps)
    ultimately show ?thesis using 1 by simp
  next
    case 2
    have "convertBase exact_rt (digits_of 10 n) (js ''dec'') (js ''oct'') = digits_of 8 n"
      using assms(1)
      by (simp add: convert_eval del: exact_to_string_radix.simps)
    moreover have "convertBase exact_rt (digits_of 8 n) (js ''oct'') (js ''dec'') = digits_of 10 n"
      using assms(1)
      by (simp add: convert_eval del: exact_to_string_radix.simps)
    ultimately show ?thesis using 2 by simp
  next
    case 3
    have "convertBase exact_rt (digits_of 10 n) (js ''dec'') (js ''hex'')
        = ascii_upper (digits_of 16 n)"
      using assms(1)
      by (simp add: convert_eval del: exact_to_string_radix.simps)
    moreover have "convertBase exact_rt (ascii_upper (digits_of 16 n)) (js ''hex'') (js ''dec'')
        = digits_of 10 n"
      using assms(1)
      by (simp add: convert_eval del: exact_to_string_radix.simps)
    ultimately show ?thesis using 3 by simp
  qed
qed

theorem convertBase_round_trip_witness:
  "(255::nat) < 2 ^ 53
   \<and> convertBase exact_rt (js ''255'') (js ''dec'') (js ''hex'') = js ''FF''
   \<and> convertBase exact_rt (js ''FF'') (js ''hex'') (js ''dec'') = js ''255''"
proof -
  have d: "digits_of 10 255 = js ''255''"
    by (simp add: exact_eval)
  have h: "convertBase exact_rt (js ''255'') (js ''dec'') (js ''hex'') = js ''FF''"
    by (simp add: convertBase_def base_names isNaN_def exact_eval)
  from convertBase_round_trip [of 255 "js ''hex''"] d h show ?thesis by simp
qed

text \<open>
  C4 as stated fails for a decimal string with leading zeros: \<open>007\<close> becomes \<open>111\<close> in
  binary and comes back as \<open>7\<close>. It also fails from \<open>2^53\<close> on, where \<open>parseInt\<close> rounds:
  \<open>9007199254740993\<close> comes back as \<open>9007199254740992\<close>.
\<close>

theorem round_trip_counterexample:
  "convertBase exact_rt (convertBase exact_rt (js ''007'') (js ''dec'') (js ''bin''))
     (js ''bin'') (js ''dec'') \<noteq> js ''007''
   \<and> convertBase exact_rt
       (convertBase exact_rt (js ''9007199254740993'') (js ''dec'') (js ''bin''))
       (js ''bin'') (js ''dec'') \<noteq> js ''9007199254740993''"
proof -
  have "convertBase exact_rt (js ''007'') (js ''dec'') (js ''bin'') = js ''111''"
    by (simp add: convertBase_def base_names isNaN_def exact_eval)
  moreover have "convertBase exact_rt (js ''111'') (js ''bin'') (js ''dec'') = js ''7''"
    by (simp add: convertBase_def base_names isNaN_def exact_eval)
  moreover have "convertBase exact_rt (js ''9007199254740993'') (js ''dec'') (js ''bin'')
      = js ''100000000000000000000000000000000000000000000000000000''"
    by (simp add: convertBase_def base_names isNaN_def exact_eval Let_def)
  moreover have "convertBase exact_rt
      (js ''100000000000000000000000000000000000000000000000000000'') (js ''bin'') (js ''dec'')
      = js ''9007199254740992''"
    by (simp add: convertBase_def base_names isNaN_def exact_eval Let_def)
  ultimately show ?thesis by (simp add: js_def)
qed

section \<open>The display\<close>

lemma calculate_display:
  assumes "\<And>n. num_to_string rt n \<noteq> []" and "currentInput s \<noteq> []"
  shows "currentInput (snd (calculate rt s)) \<noteq> []"
  using assms
  by (simp add: calculate_def Let_def addToHistory_fields split: switch_result.splits)

lemma scientific_not_empty:
  assumes "\<And>n. num_to_string rt n \<noteq> []" and "v \<noteq> []"
  shows "scientificCalculation rt f v \<noteq> []"
  using assms
  by (simp add: scientificCalculation_def Let_def error_text_def too_large_text_def
      split: jsnum.splits)

lemma convertBase_not_empty:
  assumes "\<And>n r. to_string_radix rt n r \<noteq> []" and "\<And>t. t \<noteq> [] \<Longrightarrow> to_upper_case rt t \<noteq> []"
  shows "convertBase rt v a b \<noteq> []"
  using assms
  by (simp add: convertBase_def error_text_def invalid_input_text_def)

lemma step_not_empty:
  assumes "\<And>n. num_to_string rt n \<noteq> []" and "\<And>n r. to_string_radix rt n r \<noteq> []"
    and "\<And>t. t \<noteq> [] \<Longrightarrow> to_upper_case rt t \<noteq> []"
    and "currentInput s \<noteq> []"
  shows "currentInput (step rt a s) \<noteq> []"
proof (cases a)
  case (Digit c)
  then show ?thesis
    using assms(4) by (simp add: handleNumberButton_def enter_digits_def js_def)
next
  case (Operator v)
  then show ?thesis
    using assms(1) calculate_display [OF assms(1) assms(4)]
    by (simp add: handleOperatorButton_def assms(4) split_beta)
next
  case Evaluate
  then show ?thesis using calculate_display [OF assms(1) assms(4)] by simp
next
  case Clear
  then show ?thesis by (simp add: clear_def js_def)
next
  case DeleteLast
  then show ?thesis
    by (cases "currentInput s" rule: rev_cases) (simp_all add: deleteLastCharacter_def js_def)
next
  case DecimalPoint
  then show ?thesis using assms(4) by (simp add: addDecimal_def)
next
  case (Scientific f)
  then show ?thesis
    using scientific_not_empty [OF assms(1) assms(4)] by (simp add: handleScientificButton_def)
next
  case (Convert c field)
  have "convert rt c v \<noteq> []" for v
    using convertBase_not_empty [OF assms(2) assms(3)] by (cases c) simp_all
  with Convert show ?thesis
    using assms(4) by (simp add: handleConversion_def Let_def)
qed

lemma run_not_empty:
  assumes "\<And>n. num_to_string rt n \<noteq> []" and "\<And>n r. to_string_radix rt n r \<noteq> []"
    and "\<And>t. t \<noteq> [] \<Longrightarrow> to_upper_case rt t \<noteq> []"
  shows "currentInput s \<noteq> [] \<Longrightarrow> currentInput (run rt as s) \<noteq> []"
proof (induction as arbitrary: s)
  case Nil
  then show ?case by (simp add: run_Nil)
next
  case (Cons a as)
  from step_not_empty [OF assms Cons.prems] Cons.IH show ?case
    by (simp add: run_Cons)
qed

lemma valid_digit_plain: "valid_digit b c \<Longrightarrow> c \<noteq> 45"
  by (auto simp: valid_digit_def split: if_splits)

lemma valid_digit_no_point: "valid_digit b c \<Longrightarrow> c \<noteq> 46"
  by (auto simp: valid_digit_def split: if_splits)

lemma valid_digit_zero: "known_base b \<Longrightarrow> valid_digit b 48"
  by (auto simp: valid_digit_def known_base_def)

lemma partial_numeral_single: "valid_digit b c \<Longrightarrow> partial_numeral b [c]"
  by (simp add: partial_numeral_def valid_digit_plain)

lemma unsigned_part_snoc: "v \<noteq> [] \<Longrightarrow> unsigned_part (v @ [c]) = unsigned_part v @ [c]"
  by (cases v) simp_all

lemma partial_numeral_snoc:
  "partial_numeral b v \<Longrightarrow> valid_digit b c \<Longrightarrow> partial_numeral b (v @ [c])"
  by (simp add: partial_numeral_def unsigned_part_snoc valid_digit_no_point)

lemma partial_numeral_point:
  "partial_numeral b v \<Longrightarrow> 46 \<notin> set v \<Longrightarrow> partial_numeral b (v @ [46])"
proof -
  assume v: "partial_numeral b v" and p: "46 \<notin> set v"
  have "set (unsigned_part v) \<subseteq> set v" by (cases v) auto
  with p have "filter (\<lambda>c. c = 46) (unsigned_part v) = []"
    by (auto simp: filter_empty_conv)
  with v show ?thesis
    by (simp add: partial_numeral_def unsigned_part_snoc)
qed

lemma unsigned_part_butlast:
  "length v > 1 \<Longrightarrow> unsigned_part (butlast v) = butlast (unsigned_part v)"
  by (cases v) auto

lemma filter_butlast_length: "length (filter P (butlast xs)) \<le> length (filter P xs)"
  by (cases xs rule: rev_cases) simp_all

lemma partial_numeral_butlast:
  assumes "partial_numeral b v" and "length v > 1"
  shows "partial_numeral b (butlast v)"
proof -
  from assms(2) have ne: "butlast v \<noteq> []" by (cases v rule: rev_cases) auto
  have "set (butlast (unsigned_part v)) \<subseteq> set (unsigned_part v)"
    by (auto dest: in_set_butlastD)
  with assms(1) have "list_all (\<lambda>c. valid_digit b c \<or> c = 46) (butlast (unsigned_part v))"
    by (auto simp: partial_numeral_def list_all_iff)
  moreover have "length (filter (\<lambda>c. c = 46) (butlast (unsigned_part v))) \<le> 1"
    using assms(1) filter_butlast_length [of "\<lambda>c. c = 46" "unsigned_part v"]
    by (simp add: partial_numeral_def)
  ultimately show ?thesis
    using ne assms(2) by (simp add: partial_numeral_def unsigned_part_butlast)
qed

lemma editing_step:
  assumes "known_base (currentBase s)" and "partial_numeral (currentBase s) (currentInput s)"
    and "editing a"
  shows "partial_numeral (currentBase s) (currentInput (step rt a s))
     \<and> currentBase (step rt a s) = currentBase s"
proof (cases a)
  case (Digit c)
  with assms show ?thesis
    by (auto simp: digit_step enter_digits_def partial_numeral_single partial_numeral_snoc)
next
  case Clear
  with assms show ?thesis
    by (simp add: clear_def js_def partial_numeral_single valid_digit_zero)
next
  case DeleteLast
  with assms show ?thesis
    by (simp add: deleteLastCharacter_def js_def partial_numeral_single valid_digit_zero
        partial_numeral_butlast)
next
  case DecimalPoint
  with assms show ?thesis
    by (simp add: addDecimal_def js_def partial_numeral_point)
qed (use assms in simp_all)

lemma editing_run:
  "known_base (currentBase s) \<Longrightarrow> partial_numeral (currentBase s) (currentInput s) \<Longrightarrow>
   list_all editing as \<Longrightarrow>
   partial_numeral (currentBase s) (currentInput (run rt as s))"
proof (induction as arbitrary: s)
  case Nil
  then show ?case by (simp add: run_Nil)
next
  case (Cons a as)
  from Cons.prems have "editing a" by simp
  from editing_step [OF Cons.prems(1,2) this, of rt] Cons.IH [of "step rt a s"] Cons.prems
  show ?case by (simp add: run_Cons)
qed

text \<open>
  C2 (amended). With a runtime that never prints a number as the empty string, the display
  is never empty: not after any sequence of actions from the initial state, and not after
  any action on a state whose display is not empty. It is \<open>0\<close> after \<open>clear\<close> and after
  deleting the last character of a display of one character. Digit buttons, the decimal
  point, delete and clear keep the display a partial numeral of the active base. Nothing
  is said of the display after an evaluation, the percent button, a scientific function or
  a base conversion, which store a printed number or a sentinel text.
\<close>

theorem display_invariant:
  assumes "\<And>n. num_to_string rt n \<noteq> []" and "\<And>n r. to_string_radix rt n r \<noteq> []"
    and "\<And>t. t \<noteq> [] \<Longrightarrow> to_upper_case rt t \<noteq> []"
  shows "currentInput (run rt as initial) \<noteq> []
     \<and> (currentInput s \<noteq> [] \<longrightarrow> currentInput (step rt a s) \<noteq> [])
     \<and> currentInput (snd (clear s)) = js ''0''
     \<and> (length (currentInput s) \<le> 1 \<longrightarrow> currentInput (deleteLastCharacter s) = js ''0'')
     \<and> (known_base (currentBase s) \<and> partial_numeral (currentBase s) (currentInput s)
          \<and> list_all editing as \<longrightarrow>
        partial_numeral (currentBase s) (currentInput (run rt as s)))"
proof (intro conjI impI)
  have "currentInput initial \<noteq> []" by (simp add: initial_def js_def)
  with assms show "currentInput (run rt as initial) \<noteq> []"
    by (intro run_not_empty) simp_all
next
  assume "currentInput s \<noteq> []"
  with assms show "currentInput (step rt a s) \<noteq> []"
    by (intro step_not_empty) simp_all
next
  show "currentInput (snd (clear s)) = js ''0''" by (simp add: clear_def)
next
  assume "length (currentInput s) \<le> 1"
  then show "currentInput (deleteLastCharacter s) = js ''0''"
    by (simp add: deleteLastCharacter_def)
next
  assume "known_base (currentBase s) \<and> partial_numeral (currentBase s) (currentInput s)
          \<and> list_all editing as"
  then show "partial_numeral (currentBase s) (currentInput (run rt as s))"
    by (simp add: editing_run)
qed

lemma exact_to_string_not_empty: "exact_to_string n \<noteq> []"
  by (cases n) (simp_all add: js_def signed_digits_def unrendered_def digits_of_not_Nil)

lemma exact_to_string_radix_not_empty: "exact_to_string_radix n r \<noteq> []"
  by (cases n)
    (simp_all add: js_def signed_digits_def unrendered_def digits_of_not_Nil)

theorem display_invariant_witness:
  "currentInput (run exact_rt [Digit 55, Operator (js ''+''), Digit 51, Evaluate] initial) \<noteq> []
   \<and> known_base (currentBase initial)
   \<and> partial_numeral (currentBase initial) (currentInput initial)
   \<and> list_all editing [Digit 49, DecimalPoint, Digit 53, DeleteLast]
   \<and> partial_numeral (currentBase initial)
       (currentInput (run exact_rt [Digit 49, DecimalPoint, Digit 53, DeleteLast] initial))"
proof -
  have a: "\<And>n. num_to_string exact_rt n \<noteq> []" "\<And>n r. to_string_radix exact_rt n r \<noteq> []"
    "\<And>t. t \<noteq> [] \<Longrightarrow> to_upper_case exact_rt t \<noteq> []"
    by (simp_all add: exact_rt_fields exact_to_string_not_empty exact_to_string_radix_not_empty
        ascii_upper_def)
  have b: "known_base (currentBase initial)"
    "partial_numeral (currentBase initial) (currentInput initial)"
    "list_all editing [Digit 49, DecimalPoint, Digit 53, DeleteLast]"
    by (simp_all add: initial_def known_base_def partial_numeral_def valid_digit_def base_names
        js_def is_decimal_digit_def)
  from display_invariant [OF a, where as = "[Digit 55, Operator (js ''+''), Digit 51, Evaluate]"]
    display_invariant [OF a, where s = initial
      and as = "[Digit 49, DecimalPoint, Digit 53, DeleteLast]"] b
  show ?thesis by simp
qed

text \<open>
  C2 as stated fails after a scientific function outside its domain: \<open>log\<close> on the initial
  display \<open>0\<close> stores the error text, which is no numeral in base ten.
\<close>

theorem error_text_counterexample:
  "\<not> partial_numeral (currentBase (step exact_rt (Scientific (js ''log'')) initial))
       (currentInput (step exact_rt (Scientific (js ''log'')) initial))"
proof -
  have "exact_parseFloat (js ''0'') = Fin 0"
    by (simp add: exact_eval)
  then have "step exact_rt (Scientific (js ''log'')) initial
      = initial\<lparr>currentInput := error_text\<rparr>"
    by (simp add: handleScientificButton_def scientificCalculation_def Let_def function_names
        isNaN_def num_gt_def exact_rt_fields initial_def)
  then show ?thesis
    by (simp add: initial_def partial_numeral_def error_text_def valid_digit_def base_names)
qed

section \<open>The second page script, compared\<close>

text \<open>
  On the quotient of 5 by 0 the \<open>calculate\<close> of \<open>script.js\<close> reports nothing and stores what the
  division returns. Its history entry for 7 + 3 names the operator. Its operator buttons
  overwrite a pending operation without evaluating it.
\<close>

lemma script_calculate_zero_divisor:
  assumes "operation s = Some division_sign"
  shows "currentInput (script_calculate rt s) =
     num_to_string rt (num_div rt (parseFloat rt (previousInput s)) (parseFloat rt (currentInput s)))"
  using assms by (simp add: script_calculate_def Let_def operator_names)

lemma script_five_by_zero:
  "currentInput (script_equals exact_rt
     (initial\<lparr>currentInput := js ''0'', previousInput := js ''5'',
        operation := Some division_sign\<rparr>)) = js ''Infinity''"
  by (simp add: script_equals_def script_calculate_def Let_def division_sign_def times_sign_def
      truthy_simps initial_def infinity_def exact_eval)

lemma script_seven_plus_three:
  "history (script_equals exact_rt
     (initial\<lparr>currentInput := js ''3'', previousInput := js ''7'',
        operation := Some (js ''+'')\<rparr>)) = [js ''7 + 3 = 10'']"
  by (simp add: script_equals_def script_calculate_def Let_def truthy_simps template_text_def
      initial_def exact_eval)

lemma script_operator_overwrites:
  assumes "v \<noteq> [0x232B]" and "v \<noteq> js ''%''"
  shows "script_operator rt v s =
     s\<lparr>previousInput := currentInput s, operation := Some v, resetScreen := True\<rparr>"
  using assms by (simp add: script_operator_def)

end
